theory Spec2Isabelle
  imports Complex_Main "HOL-Library.Log_Nat"
begin

section \<open>Data model of the order page\<close>

text \<open>
  The order page (\<^verbatim>\<open>Orders\<close>, a React component) keeps one piece of state, \<^verbatim>\<open>orderStep\<close>,
  and reads the polled lists of tables, orders, products and credit clients. Every handler
  is modelled as a function from the lists it reads and the previous state to the next
  state, or to the request it issues. Enumerations of the schema are datatypes; nullable
  fields are options; identifiers and quantities are integers.
\<close>

datatype TableStatus = Free | Occupied

datatype OrderStatus = Pending | Preparing | Ready | Completed | Cancelled

datatype ClientType = Anonymous | Credit | Manager

datatype Step = StepTable | StepClient | StepProducts | StepComplete

record Table =
  table_id :: int
  table_number :: int
  table_capacity :: int
  table_location :: string
  table_status :: TableStatus

text \<open>A product's price is a decimal string; its stock is a nullable integer.\<close>

record Product =
  product_id :: int
  product_name :: string
  product_price :: string
  product_stock :: "int option"

record CreditClient =
  client_id :: int
  client_name :: string
  client_totalCredit :: string

text \<open>An item of a fetched order (\<^verbatim>\<open>OrderWithItems\<close>) carries its product.\<close>

record OrderItem =
  item_id :: int
  item_product :: Product
  item_quantity :: int
  item_price :: string

record Order =
  order_id :: int
  order_tableId :: int
  order_status :: OrderStatus
  order_creditClientId :: "int option"
  order_clientName :: "string option"
  order_notes :: "string option"
  order_totalAmount :: string
  order_items :: "OrderItem list"

text \<open>A cart line: an element of \<^verbatim>\<open>orderStep.orderItems\<close>.\<close>

record CartLine =
  line_product :: Product
  line_quantity :: int

record OrderStep =
  step :: Step
  selectedTable :: "Table option"
  clientType :: "ClientType option"
  selectedClient :: "CreditClient option"
  anonymousName :: string
  managerName :: string
  orderItems :: "CartLine list"
  stepNotes :: string

text \<open>The body of a request: one line of \<^verbatim>\<open>items\<close>, and the data of a new order.\<close>

record ItemPayload =
  productId :: int
  quantity :: int
  price :: string

section \<open>Numbers\<close>

text \<open>
  A JavaScript number is an IEEE double. The model holds a finite double as the rational it
  denotes, and \<^verbatim>\<open>NaN\<close>; every operation computes exactly and rounds the result to the
  nearest double, a tie going to the even significand. The model is of magnitudes in the
  normal range, which prices, quantities and totals are: it has no infinity and no
  subnormal number.
\<close>

datatype JsNumber = Finite rat | NaN

definition pow2 :: "int \<Rightarrow> rat" where
  "pow2 k = (if 0 \<le> k then 2 ^ nat k else 1 / 2 ^ nat (- k))"

text \<open>The exponent of the leading bit of a positive rational.\<close>

definition floorLog2 :: "rat \<Rightarrow> int" where
  "floorLog2 x =
     (let (a, b) = quotient_of x; k = bitlen a - bitlen b
      in if pow2 k \<le> x then k else k - 1)"

definition roundHalfEven :: "rat \<Rightarrow> int" where
  "roundHalfEven y =
     (let f = \<lfloor>y\<rfloor>; d = y - of_int f
      in if d < 1 / 2 then f else if 1 / 2 < d then f + 1 else if even f then f else f + 1)"

text \<open>The nearest double: 53 significant bits.\<close>

definition roundDouble :: "rat \<Rightarrow> rat" where
  "roundDouble x =
     (if x = 0 then 0
      else (let e = floorLog2 \<bar>x\<bar> - 52
            in of_int (roundHalfEven (x / pow2 e)) * pow2 e))"

text \<open>
  The decimal a string starts with: digits, then optionally a point and digits, with a
  digit on one side at least. A leading blank or sign, an exponent and \<^verbatim>\<open>Infinity\<close>,
  which \<^verbatim>\<open>parseFloat\<close> also reads and a decimal column never writes, are not modelled.
\<close>

definition isDigit :: "char \<Rightarrow> bool" where
  "isDigit c = (48 \<le> (of_char c :: nat) \<and> (of_char c :: nat) \<le> 57)"

fun digitsValue :: "nat \<Rightarrow> string \<Rightarrow> nat" where
  "digitsValue acc [] = acc"
| "digitsValue acc (c # cs) = digitsValue (10 * acc + (of_char c - 48)) cs"

definition decimalValue :: "string \<Rightarrow> rat option" where
  "decimalValue s =
     (let whole = takeWhile isDigit s;
          rest = dropWhile isDigit s;
          frac = (case rest of [] \<Rightarrow> [] | c # cs \<Rightarrow> if c = CHR ''.'' then takeWhile isDigit cs else [])
      in if whole = [] \<and> frac = [] then None
         else Some (of_nat (digitsValue 0 whole) + of_nat (digitsValue 0 frac) / 10 ^ length frac))"

definition parseFloat :: "string \<Rightarrow> JsNumber" where
  "parseFloat s = (case decimalValue s of None \<Rightarrow> NaN | Some v \<Rightarrow> Finite (roundDouble v))"

text \<open>\<^verbatim>\<open>x + y\<close>, and \<^verbatim>\<open>x * q\<close> for a quantity \<^verbatim>\<open>q\<close>, a number that holds an integer.\<close>

definition num_add :: "JsNumber \<Rightarrow> JsNumber \<Rightarrow> JsNumber" where
  "num_add x y =
     (case (x, y) of (Finite a, Finite b) \<Rightarrow> Finite (roundDouble (a + b)) | _ \<Rightarrow> NaN)"

definition num_mul :: "JsNumber \<Rightarrow> int \<Rightarrow> JsNumber" where
  "num_mul x q =
     (case x of Finite a \<Rightarrow> Finite (roundDouble (a * roundDouble (of_int q))) | NaN \<Rightarrow> NaN)"

section \<open>Requests\<close>

record OrderData =
  tableId :: int
  creditClientId :: "int option"
  clientName :: "string option"
  totalAmount :: JsNumber
  orderNotes :: string
  items :: "ItemPayload list"

text \<open>What a handler does to the outside: a toast, or one of the two mutations.\<close>

datatype ToastVariant = Destructive | Default

datatype Effect =
    Toast string ToastVariant
  | AddItemsToOrder int "ItemPayload list"
  | CreateOrder OrderData

section \<open>Submitting the cart\<close>

text \<open>\<^verbatim>\<open>ordersList.find(order => order.tableId === table.id && order.status === "pending")\<close>\<close>

definition pendingOrderFor :: "Order list \<Rightarrow> int \<Rightarrow> Order option" where
  "pendingOrderFor ordersList tid =
     find (\<lambda>order. order_tableId order = tid \<and> order_status order = Pending) ordersList"

text \<open>\<^verbatim>\<open>calculateTotal\<close>: a left-to-right \<^verbatim>\<open>reduce\<close> from 0.\<close>

definition calculateTotal :: "OrderStep \<Rightarrow> JsNumber" where
  "calculateTotal orderStep =
     foldl (\<lambda>total item.
              num_add total
                (num_mul (parseFloat (product_price (line_product item))) (line_quantity item)))
       (Finite 0) (orderItems orderStep)"

text \<open>The object pushed to \<^verbatim>\<open>itemsToAdd\<close>, and mapped into \<^verbatim>\<open>orderData.items\<close>.\<close>

definition toPayload :: "CartLine \<Rightarrow> ItemPayload" where
  "toPayload item =
     \<lparr>productId = product_id (line_product item),
      quantity = line_quantity item,
      price = product_price (line_product item)\<rparr>"

text \<open>The first loop of the merge branch: every new item is pushed.\<close>

fun pushNewItems :: "ItemPayload list \<Rightarrow> CartLine list \<Rightarrow> ItemPayload list" where
  "pushNewItems itemsToAdd [] = itemsToAdd"
| "pushNewItems itemsToAdd (item # rest) = pushNewItems (itemsToAdd @ [toPayload item]) rest"

text \<open>
  The second loop: an item whose product is on the order is pushed when the order's
  first line of that product has another quantity.
\<close>

fun pushUpdatedItems :: "OrderItem list \<Rightarrow> ItemPayload list \<Rightarrow> CartLine list \<Rightarrow> ItemPayload list" where
  "pushUpdatedItems existingItems itemsToAdd [] = itemsToAdd"
| "pushUpdatedItems existingItems itemsToAdd (item # rest) =
     (case find (\<lambda>existing. product_id (item_product existing) = product_id (line_product item))
             existingItems of
        Some existingItem \<Rightarrow>
          if line_quantity item \<noteq> item_quantity existingItem
          then pushUpdatedItems existingItems (itemsToAdd @ [toPayload item]) rest
          else pushUpdatedItems existingItems itemsToAdd rest
      | None \<Rightarrow> pushUpdatedItems existingItems itemsToAdd rest)"

definition mergeItemsToAdd :: "Order \<Rightarrow> CartLine list \<Rightarrow> ItemPayload list" where
  "mergeItemsToAdd existingOrder cart =
     (let existingProductIds = map (\<lambda>item. product_id (item_product item)) (order_items existingOrder);
          newItems = filter (\<lambda>item. product_id (line_product item) \<notin> set existingProductIds) cart;
          updatedItems = filter (\<lambda>item. product_id (line_product item) \<in> set existingProductIds) cart
      in pushUpdatedItems (order_items existingOrder) (pushNewItems [] newItems) updatedItems)"

definition newOrderData :: "Table \<Rightarrow> OrderStep \<Rightarrow> OrderData" where
  "newOrderData tbl orderStep =
     \<lparr>tableId = table_id tbl,
      creditClientId =
        (if clientType orderStep = Some Credit
         then map_option client_id (selectedClient orderStep) else None),
      clientName =
        (if clientType orderStep = Some Anonymous then Some (anonymousName orderStep)
         else if clientType orderStep = Some Manager then Some (managerName orderStep)
         else None),
      totalAmount = calculateTotal orderStep,
      orderNotes = stepNotes orderStep,
      items = map toPayload (orderItems orderStep)\<rparr>"

definition handleSubmitOrder :: "Order list \<Rightarrow> OrderStep \<Rightarrow> Effect" where
  "handleSubmitOrder ordersList orderStep =
     (case selectedTable orderStep of
        None \<Rightarrow> Toast ''Erro'' Destructive
      | Some tbl \<Rightarrow>
          if clientType orderStep = None \<or> orderItems orderStep = []
          then Toast ''Erro'' Destructive
          else
            (case pendingOrderFor ordersList (table_id tbl) of
               Some existingOrder \<Rightarrow>
                 (let itemsToAdd = mergeItemsToAdd existingOrder (orderItems orderStep)
                  in if itemsToAdd \<noteq> []
                     then AddItemsToOrder (order_id existingOrder) itemsToAdd
                     else Toast ''Aviso'' Default)
             | None \<Rightarrow> CreateOrder (newOrderData tbl orderStep)))"

text \<open>
  Three notions the statements about a submitted cart use: the product of a cart line is
  on the order; the cart line's quantity differs from that of the order's first line of
  the product; and the items a submission sends to the order (none when it sends no merge
  request).
\<close>

definition onOrder :: "Order \<Rightarrow> CartLine \<Rightarrow> bool" where
  "onOrder existingOrder line =
     (product_id (line_product line)
        \<in> set (map (\<lambda>item. product_id (item_product item)) (order_items existingOrder)))"

definition quantityChanged :: "Order \<Rightarrow> CartLine \<Rightarrow> bool" where
  "quantityChanged existingOrder line =
     (case find (\<lambda>existing. product_id (item_product existing) = product_id (line_product line))
             (order_items existingOrder) of
        Some existingItem \<Rightarrow> line_quantity line \<noteq> item_quantity existingItem
      | None \<Rightarrow> False)"

fun sentItems :: "Effect \<Rightarrow> ItemPayload list" where
  "sentItems (AddItemsToOrder orderId itemsToAdd) = itemsToAdd"
| "sentItems (Toast title variant) = []"
| "sentItems (CreateOrder orderData) = []"

section \<open>Selecting a table\<close>

text \<open>
  \<^verbatim>\<open>toLowerCase\<close> on the letters A to Z; every other character is left as it is.
\<close>

definition lowerChar :: "char \<Rightarrow> char" where
  "lowerChar c =
     (case map_of (zip ''ABCDEFGHIJKLMNOPQRSTUVWXYZ'' ''abcdefghijklmnopqrstuvwxyz'') c of
        Some l \<Rightarrow> l
      | None \<Rightarrow> c)"

definition toLowerCase :: "string \<Rightarrow> string" where
  "toLowerCase s = map lowerChar s"

text \<open>
  Truthiness of a nullable number and of a nullable string: \<^verbatim>\<open>null\<close>, \<^verbatim>\<open>0\<close> and the
  empty string are falsy.
\<close>

definition truthyNumber :: "int option \<Rightarrow> bool" where
  "truthyNumber x = (case x of None \<Rightarrow> False | Some n \<Rightarrow> n \<noteq> 0)"

definition truthyString :: "string option \<Rightarrow> bool" where
  "truthyString x = (case x of None \<Rightarrow> False | Some s \<Rightarrow> s \<noteq> [])"

text \<open>
  \<^verbatim>\<open>clientName && (clientName.toLowerCase() === 'carl malack' || ... === 'lucelle reis')\<close>
\<close>

definition isManagerName :: "string option \<Rightarrow> bool" where
  "isManagerName x =
     (case x of
        None \<Rightarrow> False
      | Some s \<Rightarrow> s \<noteq> [] \<and> (toLowerCase s = ''carl malack'' \<or> toLowerCase s = ''lucelle reis''))"

text \<open>The expression that fills \<^verbatim>\<open>clientType\<close> from the existing order.\<close>

definition inferClientType :: "Order \<Rightarrow> ClientType" where
  "inferClientType existingOrder =
     (if truthyNumber (order_creditClientId existingOrder) then Credit
      else if isManagerName (order_clientName existingOrder) then Manager
      else Anonymous)"

definition handleTableSelection :: "Order list \<Rightarrow> CreditClient list \<Rightarrow> Table \<Rightarrow> OrderStep \<Rightarrow> OrderStep" where
  "handleTableSelection ordersList creditClientsList tbl prev =
     (case pendingOrderFor ordersList (table_id tbl) of
        Some existingOrder \<Rightarrow>
          prev\<lparr>selectedTable := Some tbl,
               clientType := Some (inferClientType existingOrder),
               selectedClient :=
                 (if truthyNumber (order_creditClientId existingOrder)
                  then find (\<lambda>c. Some (client_id c) = order_creditClientId existingOrder) creditClientsList
                  else None),
               anonymousName :=
                 (if truthyString (order_clientName existingOrder)
                     \<and> \<not> isManagerName (order_clientName existingOrder)
                  then (case order_clientName existingOrder of Some s \<Rightarrow> s | None \<Rightarrow> [])
                  else []),
               managerName :=
                 (if isManagerName (order_clientName existingOrder)
                  then (case order_clientName existingOrder of Some s \<Rightarrow> s | None \<Rightarrow> [])
                  else []),
               orderItems :=
                 map (\<lambda>item. \<lparr>line_product = item_product item, line_quantity = item_quantity item\<rparr>)
                   (order_items existingOrder),
               stepNotes := (case order_notes existingOrder of Some s \<Rightarrow> s | None \<Rightarrow> []),
               step := StepProducts\<rparr>
      | None \<Rightarrow> prev\<lparr>selectedTable := Some tbl, step := StepClient\<rparr>)"

text \<open>
  The effect that selects a table from the \<^verbatim>\<open>table\<close> parameter of the URL. Its first
  argument is the number \<^verbatim>\<open>parseInt\<close> reads from the parameter, \<^verbatim>\<open>None\<close> when the
  search string is empty or has no such parameter (and for a parameter that is not a
  number, which no table's id equals).
\<close>

definition autoSelectTable :: "int option \<Rightarrow> Table list \<Rightarrow> OrderStep \<Rightarrow> OrderStep" where
  "autoSelectTable tableIdParam tablesList prev =
     (case tableIdParam of
        None \<Rightarrow> prev
      | Some tableId' \<Rightarrow>
          if tablesList = [] then prev
          else (case find (\<lambda>t. table_id t = tableId') tablesList of
                  Some tbl \<Rightarrow> prev\<lparr>selectedTable := Some tbl, step := StepClient\<rparr>
                | None \<Rightarrow> prev))"

text \<open>
  The button of a table in the first step: its colour, whether it is disabled, and the
  \<^verbatim>\<open>+\<close> mark. A disabled button does not run its handler.
\<close>

datatype Colour = Green | Orange | Red

record TableButton =
  button_colour :: Colour
  button_disabled :: bool
  button_plus :: bool

definition hasPendingOrder :: "Order list \<Rightarrow> Table \<Rightarrow> bool" where
  "hasPendingOrder ordersList tbl =
     list_ex (\<lambda>order. order_tableId order = table_id tbl \<and> order_status order = Pending) ordersList"

definition tableButton :: "Order list \<Rightarrow> Table \<Rightarrow> TableButton" where
  "tableButton ordersList tbl =
     \<lparr>button_colour =
        (if table_status tbl = Free then Green
         else if hasPendingOrder ordersList tbl then Orange
         else Red),
      button_disabled = (table_status tbl \<noteq> Free \<and> \<not> hasPendingOrder ordersList tbl),
      button_plus = hasPendingOrder ordersList tbl\<rparr>"

definition clickTable :: "Order list \<Rightarrow> CreditClient list \<Rightarrow> Table \<Rightarrow> OrderStep \<Rightarrow> OrderStep" where
  "clickTable ordersList creditClientsList tbl prev =
     (if button_disabled (tableButton ordersList tbl) then prev
      else handleTableSelection ordersList creditClientsList tbl prev)"

text \<open>
  \<^verbatim>\<open>handleClientSelection(type, client?, name?, managerName?)\<close>: an argument left out,
  and an empty name, give \<^verbatim>\<open>null\<close> and the empty string.
\<close>

definition handleClientSelection ::
  "ClientType \<Rightarrow> CreditClient option \<Rightarrow> string option \<Rightarrow> string option \<Rightarrow> OrderStep \<Rightarrow> OrderStep" where
  "handleClientSelection type client name manager prev =
     prev\<lparr>clientType := Some type,
          selectedClient := client,
          anonymousName := (case name of Some n \<Rightarrow> n | None \<Rightarrow> []),
          managerName := (case manager of Some m \<Rightarrow> m | None \<Rightarrow> []),
          step := StepProducts\<rparr>"

section \<open>Editing the cart\<close>

definition handleProductAdd :: "Product \<Rightarrow> OrderStep \<Rightarrow> OrderStep" where
  "handleProductAdd product prev =
     (case find (\<lambda>item. product_id (line_product item) = product_id product) (orderItems prev) of
        Some existingItem \<Rightarrow>
          prev\<lparr>orderItems :=
                 map (\<lambda>item. if product_id (line_product item) = product_id product
                              then item\<lparr>line_quantity := line_quantity item + 1\<rparr>
                              else item)
                   (orderItems prev)\<rparr>
      | None \<Rightarrow>
          prev\<lparr>orderItems := orderItems prev @ [\<lparr>line_product = product, line_quantity = 1\<rparr>]\<rparr>)"

definition handleProductRemove :: "int \<Rightarrow> OrderStep \<Rightarrow> OrderStep" where
  "handleProductRemove pid prev =
     prev\<lparr>orderItems := filter (\<lambda>item. product_id (line_product item) \<noteq> pid) (orderItems prev)\<rparr>"

definition handleQuantityChange :: "int \<Rightarrow> int \<Rightarrow> OrderStep \<Rightarrow> OrderStep" where
  "handleQuantityChange pid qty prev =
     (if qty \<le> 0 then handleProductRemove pid prev
      else prev\<lparr>orderItems :=
                  map (\<lambda>item. if product_id (line_product item) = pid
                               then item\<lparr>line_quantity := qty\<rparr>
                               else item)
                    (orderItems prev)\<rparr>)"

text \<open>
  The add button of a product: \<^verbatim>\<open>disabled={product.stock <= 0}\<close>. In the comparison a
  \<^verbatim>\<open>null\<close> stock counts as 0.
\<close>

definition stockNumber :: "Product \<Rightarrow> int" where
  "stockNumber product = (case product_stock product of None \<Rightarrow> 0 | Some s \<Rightarrow> s)"

definition addButtonDisabled :: "Product \<Rightarrow> bool" where
  "addButtonDisabled product = (stockNumber product \<le> 0)"

definition clickAdd :: "Product \<Rightarrow> OrderStep \<Rightarrow> OrderStep" where
  "clickAdd product prev =
     (if addButtonDisabled product then prev else handleProductAdd product prev)"

text \<open>Every line of the cart is for a product in stock.\<close>

definition allInStock :: "OrderStep \<Rightarrow> bool" where
  "allInStock orderStep =
     list_all (\<lambda>item. 0 < stockNumber (line_product item)) (orderItems orderStep)"

section \<open>The occupancy figure of the statistics cards\<close>

record SessionStats =
  occupiedTables :: "int option"
  totalTables :: "int option"

text \<open>\<^verbatim>\<open>x || d\<close> on a number that may be absent.\<close>

definition orElse :: "int option \<Rightarrow> int \<Rightarrow> int" where
  "orElse x d = (case x of None \<Rightarrow> d | Some n \<Rightarrow> if n = 0 then d else n)"

text \<open>\<^verbatim>\<open>sessionStats?.field\<close> on a \<^verbatim>\<open>sessionStats\<close> that may be \<^verbatim>\<open>null\<close>.\<close>

definition optField :: "(SessionStats \<Rightarrow> int option) \<Rightarrow> SessionStats option \<Rightarrow> int option" where
  "optField f sessionStats = (case sessionStats of None \<Rightarrow> None | Some s \<Rightarrow> f s)"

definition occupancyNumerator :: "SessionStats option \<Rightarrow> int" where
  "occupancyNumerator sessionStats = orElse (optField occupiedTables sessionStats) 0"

definition occupancyDenominator :: "SessionStats option \<Rightarrow> int" where
  "occupancyDenominator sessionStats = orElse (optField totalTables sessionStats) 1"

text \<open>\<^verbatim>\<open>Math.round\<close>: the nearest integer, a half going up. The quotient is taken exactly.\<close>

definition Math_round :: "rat \<Rightarrow> int" where
  "Math_round x = \<lfloor>x + 1 / 2\<rfloor>"

definition occupancyPercent :: "SessionStats option \<Rightarrow> int" where
  "occupancyPercent sessionStats =
     Math_round
       (of_int (occupancyNumerator sessionStats) / of_int (occupancyDenominator sessionStats) * 100)"

section \<open>The merge of the order engine\<close>





text \<open>
  Modelled from the spec: the handler of \<^verbatim>\<open>POST /api/orders/:id/items\<close> (the routes and
  the storage of the server) is not among the sources. One cart line is merged by the
  case split of section 4.2: a product not yet on the order is appended at the cart
  quantity; for a product already on the order the cart quantity replaces the existing
  quantity, and a quantity of 0 or less removes the line.
\<close>

definition mergeLine :: "ItemPayload list \<Rightarrow> ItemPayload \<Rightarrow> ItemPayload list" where
  "mergeLine existing line =
     (if productId line \<notin> productId ` set existing then existing @ [line]
      else if quantity line \<le> 0 then filter (\<lambda>item. productId item \<noteq> productId line) existing
      else map (\<lambda>item. if productId item = productId line
                        then item\<lparr>quantity := quantity line\<rparr> else item) existing)"

text \<open>
  The items of a fetched order as the order engine holds them: the product's id, the
  quantity and the snapshot price of each line.
\<close>

definition engineItems :: "Order \<Rightarrow> ItemPayload list" where
  "engineItems existingOrder =
     map (\<lambda>item. \<lparr>productId = product_id (item_product item), quantity = item_quantity item,
                   price = item_price item\<rparr>) (order_items existingOrder)"

text \<open>
  Modelled from the spec: the items of the order after the merge of a request, by
  \<^verbatim>\<open>mergeItems(orderId, cart)\<close> of section 4.2, whose code is not among the sources:
  the lines of the request are merged in their order into the items the order holds.
\<close>

definition mergedItems :: "Order \<Rightarrow> ItemPayload list \<Rightarrow> ItemPayload list" where
  "mergedItems existingOrder sent = foldl mergeLine (engineItems existingOrder) sent"

section \<open>Inputs on which the model is run\<close>

definition beer :: Product where
  "beer = \<lparr>product_id = 1, product_name = ''Cerveja'', product_price = ''5.00'', product_stock = Some 0\<rparr>"

definition wine :: Product where
  "wine = \<lparr>product_id = 2, product_name = ''Vinho'', product_price = ''3.00'', product_stock = Some 7\<rparr>"

definition candy :: Product where
  "candy = \<lparr>product_id = 3, product_name = ''Rebucado'', product_price = ''0.10'', product_stock = Some 40\<rparr>"

definition table12 :: Table where
  "table12 = \<lparr>table_id = 12, table_number = 12, table_capacity = 4,
              table_location = ''terrace'', table_status = Occupied\<rparr>"

definition pendingOrder12 :: Order where
  "pendingOrder12 =
     \<lparr>order_id = 40, order_tableId = 12, order_status = Pending,
      order_creditClientId = None, order_clientName = Some ''Carl Malack'', order_notes = None,
      order_totalAmount = ''25.00'',
      order_items = [\<lparr>item_id = 90, item_product = beer, item_quantity = 5, item_price = ''5.00''\<rparr>]\<rparr>"

definition preparingOrder12 :: Order where
  "preparingOrder12 = pendingOrder12\<lparr>order_status := Preparing\<rparr>"

definition wineOrder12 :: Order where
  "wineOrder12 =
     pendingOrder12\<lparr>order_items :=
       [\<lparr>item_id = 91, item_product = wine, item_quantity = 5, item_price = ''3.00''\<rparr>]\<rparr>"

definition beerWineOrder12 :: Order where
  "beerWineOrder12 =
     pendingOrder12\<lparr>order_totalAmount := ''31.00'',
       order_items :=
         [\<lparr>item_id = 90, item_product = beer, item_quantity = 5, item_price = ''5.00''\<rparr>,
          \<lparr>item_id = 91, item_product = wine, item_quantity = 2, item_price = ''3.00''\<rparr>]\<rparr>"

definition emptyStep :: OrderStep where
  "emptyStep =
     \<lparr>step = StepTable, selectedTable = None, clientType = None, selectedClient = None,
      anonymousName = [], managerName = [], orderItems = [], stepNotes = []\<rparr>"

definition cartStep :: "CartLine list \<Rightarrow> OrderStep" where
  "cartStep cart =
     emptyStep\<lparr>step := StepProducts, selectedTable := Some table12,
               clientType := Some Manager, managerName := ''Carl Malack'', orderItems := cart\<rparr>"

section \<open>Facts about the loops and the lookups\<close>

lemmas fixtures =
  cartStep_def emptyStep_def table12_def pendingOrder12_def preparingOrder12_def wineOrder12_def
  beerWineOrder12_def beer_def wine_def candy_def

lemma find_Some_member: "find P xs = Some x \<Longrightarrow> P x \<and> x \<in> set xs"
  by (induction xs) (auto split: if_splits)

lemma find_distinct_self:
  "distinct (map f xs) \<Longrightarrow> x \<in> set xs \<Longrightarrow> find (\<lambda>y. f y = f x) xs = Some x"
  by (induction xs) (auto simp: image_iff)

lemma distinct_map_eq:
  "distinct (map f xs) \<Longrightarrow> x \<in> set xs \<Longrightarrow> y \<in> set xs \<Longrightarrow> f x = f y \<Longrightarrow> x = y"
  by (auto simp: distinct_map dest: inj_onD)

lemma pushNewItems_eq: "pushNewItems acc xs = acc @ map toPayload xs"
  by (induction xs arbitrary: acc) auto

lemma pushUpdatedItems_eq:
  "pushUpdatedItems (order_items eo) acc xs = acc @ map toPayload (filter (quantityChanged eo) xs)"
  by (induction xs arbitrary: acc) (auto simp: quantityChanged_def split: option.splits)

lemma quantityChanged_onOrder: "quantityChanged eo line \<Longrightarrow> onOrder eo line"
  by (force simp: quantityChanged_def onOrder_def split: option.splits dest: find_Some_member)

lemma onOrder_cong:
  "product_id (line_product l1) = product_id (line_product l2) \<Longrightarrow> onOrder eo l1 = onOrder eo l2"
  by (simp add: onOrder_def)

lemma productId_toPayload: "productId (toPayload l) = product_id (line_product l)"
  by (simp add: toPayload_def)

text \<open>
  The two loops together: the new lines in cart order, then the lines whose quantity
  changed, in cart order.
\<close>

lemma mergeItemsToAdd_eq:
  "mergeItemsToAdd eo cart =
     map toPayload (filter (\<lambda>l. \<not> onOrder eo l) cart)
       @ map toPayload (filter (quantityChanged eo) cart)"
proof -
  have "filter (quantityChanged eo) (filter (onOrder eo) cart) = filter (quantityChanged eo) cart"
    by (auto simp: filter_filter intro!: filter_cong dest: quantityChanged_onOrder)
  then show ?thesis
    by (simp add: mergeItemsToAdd_def pushNewItems_eq pushUpdatedItems_eq onOrder_def Let_def)
qed

lemma toPayload_class:
  "toPayload l1 = toPayload l2 \<Longrightarrow>
     onOrder eo l1 = onOrder eo l2 \<and> quantityChanged eo l1 = quantityChanged eo l2"
  by (auto simp: toPayload_def onOrder_def quantityChanged_def split: option.splits)

lemma submit_merge_branch:
  assumes "selectedTable orderStep = Some tbl" "clientType orderStep \<noteq> None"
    "pendingOrderFor ordersList (table_id tbl) = Some eo"
  shows "sentItems (handleSubmitOrder ordersList orderStep) = mergeItemsToAdd eo (orderItems orderStep)"
  using assms by (auto simp: handleSubmitOrder_def Let_def mergeItemsToAdd_eq)

lemma submit_nonempty_is_merge_request:
  assumes sel: "selectedTable orderStep = Some tbl" and ct: "clientType orderStep \<noteq> None"
    and pend: "pendingOrderFor ordersList (table_id tbl) = Some existingOrder"
  shows "sentItems (handleSubmitOrder ordersList orderStep) \<noteq> [] \<longrightarrow>
           handleSubmitOrder ordersList orderStep =
             AddItemsToOrder (order_id existingOrder) (sentItems (handleSubmitOrder ordersList orderStep))"
  using sel ct pend by (auto simp: handleSubmitOrder_def Let_def)

text \<open>
  Whatever is sent is for a product of the cart: a line taken out of the cart sends
  nothing to the order.
\<close>

lemma sent_items_come_from_cart:
  "productId ` set (sentItems (handleSubmitOrder ordersList orderStep))
     \<subseteq> (\<lambda>line. product_id (line_product line)) ` set (orderItems orderStep)"
  by (auto simp: handleSubmitOrder_def Let_def mergeItemsToAdd_eq productId_toPayload
        split: option.splits)


lemma hasPendingOrder_iff:
  "hasPendingOrder ordersList tbl \<longleftrightarrow> pendingOrderFor ordersList (table_id tbl) \<noteq> None"
  by (auto simp: hasPendingOrder_def pendingOrderFor_def list_ex_iff find_None_iff)

lemma pendingOrderFor_Some:
  "pendingOrderFor ordersList tid = Some eo \<Longrightarrow>
     eo \<in> set ordersList \<and> order_tableId eo = tid \<and> order_status eo = Pending"
  unfolding pendingOrderFor_def by (drule find_Some_member) simp

lemma createOrder_only_without_pending:
  "handleSubmitOrder ordersList orderStep = CreateOrder orderData \<Longrightarrow>
     \<exists>tbl. selectedTable orderStep = Some tbl \<and> \<not> hasPendingOrder ordersList tbl
        \<and> orderData = newOrderData tbl orderStep"
  by (auto simp: handleSubmitOrder_def hasPendingOrder_iff Let_def split: option.splits if_splits)

lemma merge_request_targets_pending_order:
  "handleSubmitOrder ordersList orderStep = AddItemsToOrder orderId sent \<Longrightarrow>
     \<exists>existingOrder \<in> set ordersList. \<exists>tbl.
        order_id existingOrder = orderId \<and> order_status existingOrder = Pending
        \<and> selectedTable orderStep = Some tbl \<and> order_tableId existingOrder = table_id tbl"
  by (auto simp: handleSubmitOrder_def Let_def split: option.splits if_splits
        dest!: pendingOrderFor_Some)

lemma noop_general:
  assumes sel: "selectedTable orderStep = Some tbl"
    and ct: "clientType orderStep \<noteq> None"
    and cart: "orderItems orderStep \<noteq> []"
    and pend: "pendingOrderFor ordersList (table_id tbl) = Some existingOrder"
    and same: "\<forall>line \<in> set (orderItems orderStep).
                 onOrder existingOrder line \<and> \<not> quantityChanged existingOrder line"
  shows "handleSubmitOrder ordersList orderStep = Toast ''Aviso'' Default"
proof -
  have "filter (\<lambda>l. \<not> onOrder existingOrder l) (orderItems orderStep) = []"
    using same by (auto simp: filter_empty_conv)
  moreover have "filter (quantityChanged existingOrder) (orderItems orderStep) = []"
    using same by (auto simp: filter_empty_conv)
  ultimately have "mergeItemsToAdd existingOrder (orderItems orderStep) = []"
    by (simp add: mergeItemsToAdd_eq)
  then show ?thesis using sel ct cart pend
    by (simp add: handleSubmitOrder_def)
qed

lemma prepopulated_cart_unchanged:
  assumes "distinct (map (\<lambda>item. product_id (item_product item)) (order_items eo))"
    and "line \<in> set (map (\<lambda>item. \<lparr>line_product = item_product item, line_quantity = item_quantity item\<rparr>)
                        (order_items eo))"
  shows "onOrder eo line \<and> \<not> quantityChanged eo line"
proof -
  from assms(2) obtain item where item: "item \<in> set (order_items eo)"
    and line: "line = \<lparr>line_product = item_product item, line_quantity = item_quantity item\<rparr>"
    by auto
  have "find (\<lambda>existing. product_id (item_product existing) = product_id (item_product item))
          (order_items eo) = Some item"
    using find_distinct_self [OF assms(1) item] .
  with item line show ?thesis by (auto simp: onOrder_def quantityChanged_def)
qed

section \<open>Facts about the merge of the order engine\<close>

text \<open>Merging a line leaves the lines of every other product as they were.\<close>

lemma mergeLine_other:
  "productId line \<noteq> P \<Longrightarrow>
     filter (\<lambda>item. productId item = P) (mergeLine existing line)
       = filter (\<lambda>item. productId item = P) existing"
proof -
  assume ne: "productId line \<noteq> P"
  have 1: "filter (\<lambda>item. productId item = P) (filter (\<lambda>item. productId item \<noteq> productId line) xs)
          = filter (\<lambda>item. productId item = P) xs" for xs
    using ne by (induction xs) auto
  have 2: "filter (\<lambda>item. productId item = P)
             (map (\<lambda>item. if productId item = productId line
                           then item\<lparr>quantity := quantity line\<rparr> else item) xs)
          = filter (\<lambda>item. productId item = P) xs" for xs
    using ne by (induction xs) auto
  show ?thesis using ne 1 [of existing] 2 [of existing]
    by (simp add: mergeLine_def del: filter_filter)
qed

lemma foldl_mergeLine_other:
  "P \<notin> productId ` set cart \<Longrightarrow>
     filter (\<lambda>item. productId item = P) (foldl mergeLine existing cart)
       = filter (\<lambda>item. productId item = P) existing"
  by (induction cart arbitrary: existing) (auto simp: mergeLine_other)

lemma present_iff_filter:
  "P \<in> productId ` set xs \<longleftrightarrow> filter (\<lambda>item. productId item = P) xs \<noteq> []"
  by (auto simp: filter_empty_conv)

lemma distinct_mergeItemsToAdd:
  assumes d: "distinct (map (\<lambda>l. product_id (line_product l)) cart)"
  shows "distinct (map productId (mergeItemsToAdd eo cart))"
proof -
  let ?f = "\<lambda>l. product_id (line_product l)"
  have m: "map productId (mergeItemsToAdd eo cart)
      = map ?f (filter (\<lambda>l. \<not> onOrder eo l) cart) @ map ?f (filter (quantityChanged eo) cart)"
    by (simp add: mergeItemsToAdd_eq productId_toPayload o_def)
  have "?f ` {l \<in> set cart. \<not> onOrder eo l} \<inter> ?f ` {l \<in> set cart. quantityChanged eo l} = {}"
    using onOrder_cong quantityChanged_onOrder by blast
  then show ?thesis unfolding m using d
    by (simp add: distinct_map_filter)
qed

text \<open>What the merge of a line does to the lines of its own product.\<close>

lemma mergeLine_own:
  "filter (\<lambda>item. productId item = productId x) (mergeLine existing x)
     = (if filter (\<lambda>item. productId item = productId x) existing = [] then [x]
        else if quantity x \<le> 0 then []
        else map (\<lambda>item. item\<lparr>quantity := quantity x\<rparr>)
               (filter (\<lambda>item. productId item = productId x) existing))"
proof -
  let ?P = "\<lambda>item. productId item = productId x"
  have absent: "productId x \<notin> productId ` set existing \<longleftrightarrow> filter ?P existing = []"
    using present_iff_filter [of "productId x" existing] by blast
  have 1: "filter ?P (filter (\<lambda>item. productId item \<noteq> productId x) xs) = []" for xs
    by (induction xs) auto
  have 2: "filter ?P (map (\<lambda>item. if productId item = productId x
                                   then item\<lparr>quantity := quantity x\<rparr> else item) xs)
             = map (\<lambda>item. item\<lparr>quantity := quantity x\<rparr>) (filter ?P xs)" for xs
    by (induction xs) auto
  show ?thesis
    using 1 [of existing] 2 [of existing]
    by (simp add: mergeLine_def absent del: filter_filter)
qed

lemma merge_own:
  assumes d: "distinct (map productId sent)" and mem: "x \<in> set sent"
  shows "filter (\<lambda>item. productId item = productId x) (foldl mergeLine existing sent)
     = (if filter (\<lambda>item. productId item = productId x) existing = [] then [x]
        else if quantity x \<le> 0 then []
        else map (\<lambda>item. item\<lparr>quantity := quantity x\<rparr>)
               (filter (\<lambda>item. productId item = productId x) existing))"
proof -
  from mem obtain xs ys where s: "sent = xs @ x # ys" by (auto dest: split_list)
  with d have nx: "productId x \<notin> productId ` set xs" and ny: "productId x \<notin> productId ` set ys"
    by auto
  have "filter (\<lambda>item. productId item = productId x) (foldl mergeLine existing sent)
      = filter (\<lambda>item. productId item = productId x) (mergeLine (foldl mergeLine existing xs) x)"
    by (simp add: s foldl_mergeLine_other [OF ny])
  then show ?thesis
    by (simp only: mergeLine_own foldl_mergeLine_other [OF nx])
qed

lemma onOrder_iff_engineItems:
  "onOrder eo line \<longleftrightarrow>
     filter (\<lambda>item. productId item = product_id (line_product line)) (engineItems eo) \<noteq> []"
  by (force simp: onOrder_def engineItems_def filter_empty_conv)

lemma unsent_lines_untouched:
  assumes "P \<notin> productId ` set sent"
  shows "filter (\<lambda>item. productId item = P) (mergedItems eo sent)
           = filter (\<lambda>item. productId item = P) (engineItems eo)"
  using foldl_mergeLine_other [OF assms] by (simp add: mergedItems_def)

text \<open>The three cases of a cart line, on the order after the merge of what was sent.\<close>

lemma merged_new_line:
  assumes d: "distinct (map (\<lambda>l. product_id (line_product l)) cart)"
    and mem: "line \<in> set cart" and new: "\<not> onOrder eo line"
  shows "filter (\<lambda>item. productId item = product_id (line_product line))
           (mergedItems eo (mergeItemsToAdd eo cart)) = [toPayload line]"
proof -
  have s: "toPayload line \<in> set (mergeItemsToAdd eo cart)"
    using mem new by (auto simp: mergeItemsToAdd_eq)
  from merge_own [OF distinct_mergeItemsToAdd [OF d] s, of "engineItems eo"] new
  show ?thesis
    by (simp add: mergedItems_def productId_toPayload onOrder_iff_engineItems)
qed

lemma merged_changed_line:
  assumes d: "distinct (map (\<lambda>l. product_id (line_product l)) cart)"
    and mem: "line \<in> set cart" and ch: "quantityChanged eo line" and pos: "0 < line_quantity line"
  shows "filter (\<lambda>item. productId item = product_id (line_product line))
           (mergedItems eo (mergeItemsToAdd eo cart))
         = map (\<lambda>item. item\<lparr>quantity := line_quantity line\<rparr>)
             (filter (\<lambda>item. productId item = product_id (line_product line)) (engineItems eo))"
proof -
  have s: "toPayload line \<in> set (mergeItemsToAdd eo cart)"
    using mem ch by (auto simp: mergeItemsToAdd_eq)
  have on: "onOrder eo line" using ch by (rule quantityChanged_onOrder)
  have q: "quantity (toPayload line) = line_quantity line" by (simp add: toPayload_def)
  from merge_own [OF distinct_mergeItemsToAdd [OF d] s, of "engineItems eo"] on pos
  show ?thesis
    by (simp add: mergedItems_def productId_toPayload onOrder_iff_engineItems q)
qed

lemma merged_unchanged_line:
  assumes d: "distinct (map (\<lambda>l. product_id (line_product l)) cart)"
    and mem: "line \<in> set cart" and on: "onOrder eo line" and same: "\<not> quantityChanged eo line"
  shows "filter (\<lambda>item. productId item = product_id (line_product line))
           (mergedItems eo (mergeItemsToAdd eo cart))
         = filter (\<lambda>item. productId item = product_id (line_product line)) (engineItems eo)"
proof -
  let ?P = "product_id (line_product line)"
  have notsent: "?P \<notin> productId ` set (mergeItemsToAdd eo cart)"
  proof
    assume "?P \<in> productId ` set (mergeItemsToAdd eo cart)"
    then obtain l where l: "l \<in> set cart" "\<not> onOrder eo l \<or> quantityChanged eo l"
      and p: "product_id (line_product l) = ?P"
      by (auto simp: mergeItemsToAdd_eq productId_toPayload)
    from distinct_map_eq [OF d l(1) mem p] l(2) on same show False by simp
  qed
  then show ?thesis by (rule unsent_lines_untouched)
qed

text \<open>The handlers keep one line per product in the cart.\<close>

lemma cart_stays_one_line_per_product:
  assumes "distinct (map (\<lambda>l. product_id (line_product l)) (orderItems prev))"
  shows "distinct (map (\<lambda>l. product_id (line_product l)) (orderItems (handleProductAdd product prev)))"
    and "distinct (map (\<lambda>l. product_id (line_product l)) (orderItems (handleQuantityChange pid qty prev)))"
    and "distinct (map (\<lambda>l. product_id (line_product l)) (orderItems (handleProductRemove pid prev)))"
proof -
  let ?f = "\<lambda>l. product_id (line_product l)"
  have m: "map ?f (map (\<lambda>item. if ?f item = p then item\<lparr>line_quantity := g item\<rparr> else item) xs)
             = map ?f xs" for p g xs
    by (induction xs) auto
  show "distinct (map ?f (orderItems (handleProductAdd product prev)))"
  proof (cases "find (\<lambda>item. ?f item = product_id product) (orderItems prev)")
    case None
    then have "product_id product \<notin> ?f ` set (orderItems prev)"
      by (auto simp: find_None_iff)
    with assms None show ?thesis by (simp add: handleProductAdd_def)
  next
    case (Some a)
    then have "orderItems (handleProductAdd product prev)
        = map (\<lambda>item. if ?f item = product_id product
                       then item\<lparr>line_quantity := line_quantity item + 1\<rparr> else item)
            (orderItems prev)"
      by (simp add: handleProductAdd_def)
    then show ?thesis using assms by (simp only: m)
  qed
  show r: "distinct (map ?f (orderItems (handleProductRemove pid prev)))"
    using assms by (simp add: handleProductRemove_def distinct_map_filter)
  show "distinct (map ?f (orderItems (handleQuantityChange pid qty prev)))"
  proof (cases "qty \<le> 0")
    case True
    with r show ?thesis by (simp add: handleQuantityChange_def)
  next
    case False
    then have "orderItems (handleQuantityChange pid qty prev)
        = map (\<lambda>item. if ?f item = pid then item\<lparr>line_quantity := qty\<rparr> else item)
            (orderItems prev)"
      by (simp add: handleQuantityChange_def)
    then show ?thesis using assms by (simp only: m)
  qed
qed

text \<open>The handlers keep every quantity of the cart positive.\<close>

lemma cart_quantities_stay_positive:
  assumes "\<forall>l \<in> set (orderItems prev). 0 < line_quantity l"
  shows "\<forall>l \<in> set (orderItems (handleProductAdd product prev)). 0 < line_quantity l"
    and "\<forall>l \<in> set (orderItems (handleQuantityChange pid qty prev)). 0 < line_quantity l"
    and "\<forall>l \<in> set (orderItems (handleProductRemove pid prev)). 0 < line_quantity l"
  using assms
  by (auto simp: handleProductAdd_def handleQuantityChange_def handleProductRemove_def
        split: option.splits if_splits)

lemma quantity_change_removes_cart_line:
  "qty \<le> 0 \<Longrightarrow>
     orderItems (handleQuantityChange pid qty prev)
       = filter (\<lambda>item. product_id (line_product item) \<noteq> pid) (orderItems prev)
     \<and> pid \<notin> (\<lambda>item. product_id (line_product item))
                ` set (orderItems (handleQuantityChange pid qty prev))"
  by (auto simp: handleQuantityChange_def handleProductRemove_def)

text \<open>
  A product that is not in the cart keeps its lines on the order, whatever is sent.
\<close>

lemma product_out_of_cart_stays_on_order:
  assumes "P \<notin> (\<lambda>line. product_id (line_product line)) ` set (orderItems orderStep)"
  shows "filter (\<lambda>item. productId item = P)
           (mergedItems eo (sentItems (handleSubmitOrder ordersList orderStep)))
         = filter (\<lambda>item. productId item = P) (engineItems eo)"
proof -
  from assms sent_items_come_from_cart [of ordersList orderStep]
  have "P \<notin> productId ` set (sentItems (handleSubmitOrder ordersList orderStep))" by blast
  then show ?thesis by (rule unsent_lines_untouched)
qed

section \<open>Facts about the totals and the occupancy figure\<close>




lemma Math_round_zero: "Math_round 0 = 0"
  by (simp add: Math_round_def floor_eq_iff)

lemma orElse_nonzero: "d \<noteq> 0 \<Longrightarrow> orElse x d \<noteq> 0"
  by (auto simp: orElse_def split: option.splits)

section \<open>The claims\<close>

subsection \<open>What a submission against a pending order sends\<close>

text \<open>
  C1, as the code has it: when a cart is submitted for a table that has a pending order,
  every cart line whose product is not on the order is sent at the cart's quantity; every
  cart line whose product is on the order at another quantity is sent with the cart's
  quantity itself (the absolute quantity, not a sum and not a difference); a cart line
  whose product is on the order at the same quantity is not sent; nothing else is sent;
  and what is sent goes to that order in one merge request. On the order after the merge,
  for a cart with one line per product: a product that was not on the order has exactly
  the appended line, at the cart's quantity; a product sent at a changed, positive
  quantity has all its lines at the cart's quantity, so that an order holding P at 5 and
  a cart with P at 3 yield P at 3, not 8; and the lines of a product that was not sent are
  as they were, at the cart's quantity already.
\<close>

theorem merge_request_carries_absolute_quantities:
  assumes sel: "selectedTable orderStep = Some tbl"
    and ct: "clientType orderStep \<noteq> None"
    and pend: "pendingOrderFor ordersList (table_id tbl) = Some existingOrder"
  shows "(\<forall>line \<in> set (orderItems orderStep). \<not> onOrder existingOrder line \<longrightarrow>
            toPayload line \<in> set (sentItems (handleSubmitOrder ordersList orderStep)))
       \<and> (\<forall>line \<in> set (orderItems orderStep). quantityChanged existingOrder line \<longrightarrow>
            toPayload line \<in> set (sentItems (handleSubmitOrder ordersList orderStep)))
       \<and> (\<forall>line \<in> set (orderItems orderStep).
            onOrder existingOrder line \<and> \<not> quantityChanged existingOrder line \<longrightarrow>
            toPayload line \<notin> set (sentItems (handleSubmitOrder ordersList orderStep)))
       \<and> (\<forall>sent \<in> set (sentItems (handleSubmitOrder ordersList orderStep)).
            \<exists>line \<in> set (orderItems orderStep). sent = toPayload line)
       \<and> (sentItems (handleSubmitOrder ordersList orderStep) \<noteq> [] \<longrightarrow>
            handleSubmitOrder ordersList orderStep =
              AddItemsToOrder (order_id existingOrder)
                (sentItems (handleSubmitOrder ordersList orderStep)))
       \<and> (distinct (map (\<lambda>l. product_id (line_product l)) (orderItems orderStep)) \<longrightarrow>
            (\<forall>line \<in> set (orderItems orderStep). \<not> onOrder existingOrder line \<longrightarrow>
               filter (\<lambda>item. productId item = product_id (line_product line))
                 (mergedItems existingOrder (sentItems (handleSubmitOrder ordersList orderStep)))
               = [toPayload line])
          \<and> (\<forall>line \<in> set (orderItems orderStep).
               quantityChanged existingOrder line \<and> 0 < line_quantity line \<longrightarrow>
               filter (\<lambda>item. productId item = product_id (line_product line))
                 (mergedItems existingOrder (sentItems (handleSubmitOrder ordersList orderStep)))
               = map (\<lambda>item. item\<lparr>quantity := line_quantity line\<rparr>)
                   (filter (\<lambda>item. productId item = product_id (line_product line))
                      (engineItems existingOrder))
               \<and> (\<exists>item \<in> set (mergedItems existingOrder
                                   (sentItems (handleSubmitOrder ordersList orderStep))).
                     productId item = product_id (line_product line))
               \<and> (\<forall>item \<in> set (mergedItems existingOrder
                                   (sentItems (handleSubmitOrder ordersList orderStep))).
                     productId item = product_id (line_product line) \<longrightarrow>
                     quantity item = line_quantity line))
          \<and> (\<forall>line \<in> set (orderItems orderStep).
               onOrder existingOrder line \<and> \<not> quantityChanged existingOrder line \<longrightarrow>
               filter (\<lambda>item. productId item = product_id (line_product line))
                 (mergedItems existingOrder (sentItems (handleSubmitOrder ordersList orderStep)))
               = filter (\<lambda>item. productId item = product_id (line_product line))
                   (engineItems existingOrder)))"
proof -
  let ?cart = "orderItems orderStep"
  let ?sent = "sentItems (handleSubmitOrder ordersList orderStep)"
  let ?merged = "mergedItems existingOrder ?sent"
  have sent: "?sent = mergeItemsToAdd existingOrder ?cart"
    using submit_merge_branch [OF sel ct pend] .
  have eq: "?sent = map toPayload (filter (\<lambda>l. \<not> onOrder existingOrder l) ?cart)
              @ map toPayload (filter (quantityChanged existingOrder) ?cart)"
    using sent by (simp add: mergeItemsToAdd_eq)
  have a: "\<forall>line \<in> set ?cart. \<not> onOrder existingOrder line \<longrightarrow> toPayload line \<in> set ?sent"
    unfolding eq by auto
  have b: "\<forall>line \<in> set ?cart. quantityChanged existingOrder line \<longrightarrow> toPayload line \<in> set ?sent"
    unfolding eq by auto
  have c: "\<forall>line \<in> set ?cart.
            onOrder existingOrder line \<and> \<not> quantityChanged existingOrder line \<longrightarrow>
            toPayload line \<notin> set ?sent"
  proof (intro ballI impI)
    fix line assume "line \<in> set ?cart"
      and h: "onOrder existingOrder line \<and> \<not> quantityChanged existingOrder line"
    show "toPayload line \<notin> set ?sent"
    proof
      assume "toPayload line \<in> set ?sent"
      then obtain l where "toPayload l = toPayload line"
        and "\<not> onOrder existingOrder l \<or> quantityChanged existingOrder l"
        unfolding eq by auto
      with toPayload_class [of l line existingOrder] h show False by blast
    qed
  qed
  have d: "\<forall>sent \<in> set ?sent. \<exists>line \<in> set ?cart. sent = toPayload line"
    unfolding eq by auto
  have e: "?sent \<noteq> [] \<longrightarrow>
             handleSubmitOrder ordersList orderStep = AddItemsToOrder (order_id existingOrder) ?sent"
    using submit_nonempty_is_merge_request [OF sel ct pend] .
  have f: "distinct (map (\<lambda>l. product_id (line_product l)) ?cart) \<longrightarrow>
            (\<forall>line \<in> set ?cart. \<not> onOrder existingOrder line \<longrightarrow>
               filter (\<lambda>item. productId item = product_id (line_product line)) ?merged
               = [toPayload line])
          \<and> (\<forall>line \<in> set ?cart.
               quantityChanged existingOrder line \<and> 0 < line_quantity line \<longrightarrow>
               filter (\<lambda>item. productId item = product_id (line_product line)) ?merged
               = map (\<lambda>item. item\<lparr>quantity := line_quantity line\<rparr>)
                   (filter (\<lambda>item. productId item = product_id (line_product line))
                      (engineItems existingOrder))
               \<and> (\<exists>item \<in> set ?merged. productId item = product_id (line_product line))
               \<and> (\<forall>item \<in> set ?merged.
                     productId item = product_id (line_product line) \<longrightarrow>
                     quantity item = line_quantity line))
          \<and> (\<forall>line \<in> set ?cart.
               onOrder existingOrder line \<and> \<not> quantityChanged existingOrder line \<longrightarrow>
               filter (\<lambda>item. productId item = product_id (line_product line)) ?merged
               = filter (\<lambda>item. productId item = product_id (line_product line))
                   (engineItems existingOrder))"
  proof (intro impI conjI ballI; (elim conjE)?)
    fix line
    assume dist: "distinct (map (\<lambda>l. product_id (line_product l)) ?cart)"
      and mem: "line \<in> set ?cart"
    let ?P = "\<lambda>item. productId item = product_id (line_product line)"
    {
      assume "\<not> onOrder existingOrder line"
      then show "filter ?P ?merged = [toPayload line]"
        unfolding sent using merged_new_line [OF dist mem] by blast
    }
    {
      assume ch: "quantityChanged existingOrder line" and pos: "0 < line_quantity line"
      have m: "filter ?P ?merged
               = map (\<lambda>item. item\<lparr>quantity := line_quantity line\<rparr>) (filter ?P (engineItems existingOrder))"
        unfolding sent using merged_changed_line [OF dist mem ch pos] .
      have ne: "filter ?P (engineItems existingOrder) \<noteq> []"
        using quantityChanged_onOrder [OF ch] by (simp add: onOrder_iff_engineItems)
      show "filter ?P ?merged
               = map (\<lambda>item. item\<lparr>quantity := line_quantity line\<rparr>) (filter ?P (engineItems existingOrder))"
        by (rule m)
      from ne m have "filter ?P ?merged \<noteq> []" by simp
      then show "\<exists>item \<in> set ?merged. productId item = product_id (line_product line)"
        by (auto simp: filter_empty_conv)
      show "quantity item = line_quantity line"
        if "item \<in> set ?merged" "productId item = product_id (line_product line)" for item
      proof -
        from that have "item \<in> set (filter ?P ?merged)" by simp
        then show ?thesis unfolding m by auto
      qed
    }
    {
      assume "onOrder existingOrder line" "\<not> quantityChanged existingOrder line"
      then show "filter ?P ?merged = filter ?P (engineItems existingOrder)"
        unfolding sent using merged_unchanged_line [OF dist mem] by blast
    }
  qed
  from a b c d e f show ?thesis by (intro conjI)
qed

text \<open>
  The order of table 12 holds product 1 at quantity 5; a cart with product 1 at quantity
  3 and a new product 2 sends product 2 at 1 and product 1 at 3, and the merged order
  holds product 1 at 3, not at 8, and product 2 at 1.
\<close>

theorem merge_request_carries_absolute_quantities_witness:
  "quantityChanged pendingOrder12 \<lparr>line_product = beer, line_quantity = 3\<rparr>
   \<and> handleSubmitOrder [pendingOrder12]
        (cartStep [\<lparr>line_product = beer, line_quantity = 3\<rparr>,
                   \<lparr>line_product = wine, line_quantity = 1\<rparr>])
      = AddItemsToOrder 40 [\<lparr>productId = 2, quantity = 1, price = ''3.00''\<rparr>,
                            \<lparr>productId = 1, quantity = 3, price = ''5.00''\<rparr>]
   \<and> mergedItems pendingOrder12
        [\<lparr>productId = 2, quantity = 1, price = ''3.00''\<rparr>,
         \<lparr>productId = 1, quantity = 3, price = ''5.00''\<rparr>]
      = [\<lparr>productId = 1, quantity = 3, price = ''5.00''\<rparr>,
         \<lparr>productId = 2, quantity = 1, price = ''3.00''\<rparr>]"
  using merge_request_carries_absolute_quantities
    [of "cartStep [\<lparr>line_product = beer, line_quantity = 3\<rparr>,
                   \<lparr>line_product = wine, line_quantity = 1\<rparr>]"
        table12 "[pendingOrder12]" pendingOrder12]
  by (simp add: fixtures pendingOrderFor_def quantityChanged_def onOrder_def toPayload_def
        handleSubmitOrder_def mergeItemsToAdd_def mergedItems_def engineItems_def mergeLine_def)

text \<open>
  C1 as stated fails: the cart line of product 1 at quantity 5 is for a product on the
  order, and the merge request carries the new product 2 only.
\<close>

theorem unchanged_line_is_not_sent_counterexample:
  "onOrder pendingOrder12 \<lparr>line_product = beer, line_quantity = 5\<rparr>
   \<and> handleSubmitOrder [pendingOrder12]
        (cartStep [\<lparr>line_product = beer, line_quantity = 5\<rparr>,
                   \<lparr>line_product = wine, line_quantity = 1\<rparr>])
      = AddItemsToOrder 40 [\<lparr>productId = 2, quantity = 1, price = ''3.00''\<rparr>]"
  by (simp add: fixtures handleSubmitOrder_def pendingOrderFor_def mergeItemsToAdd_def
        onOrder_def toPayload_def)

subsection \<open>Routing of a selected table\<close>

text \<open>
  A table selected by its button: when it has a pending order the flow is at the product
  step with that order's items in the cart; otherwise only the table is recorded and the
  flow goes to the client step. And a submission creates an order only when the selected
  table has no pending order.
\<close>

lemma table_click_routes_pending_to_add_items:
  "(let next = handleTableSelection ordersList creditClientsList tbl prev in
     (hasPendingOrder ordersList tbl \<longrightarrow>
        (\<exists>existingOrder. pendingOrderFor ordersList (table_id tbl) = Some existingOrder
           \<and> existingOrder \<in> set ordersList
           \<and> order_tableId existingOrder = table_id tbl \<and> order_status existingOrder = Pending
           \<and> step next = StepProducts \<and> selectedTable next = Some tbl
           \<and> orderItems next =
               map (\<lambda>item. \<lparr>line_product = item_product item, line_quantity = item_quantity item\<rparr>)
                 (order_items existingOrder)))
   \<and> (\<not> hasPendingOrder ordersList tbl \<longrightarrow>
         next = prev\<lparr>selectedTable := Some tbl, step := StepClient\<rparr>))
   \<and> (\<forall>orderData. handleSubmitOrder ordersList orderStep = CreateOrder orderData \<longrightarrow>
         (\<exists>t. selectedTable orderStep = Some t \<and> \<not> hasPendingOrder ordersList t))"
proof -
  have a: "hasPendingOrder ordersList tbl \<Longrightarrow>
        (\<exists>existingOrder. pendingOrderFor ordersList (table_id tbl) = Some existingOrder
           \<and> existingOrder \<in> set ordersList
           \<and> order_tableId existingOrder = table_id tbl \<and> order_status existingOrder = Pending
           \<and> step (handleTableSelection ordersList creditClientsList tbl prev) = StepProducts
           \<and> selectedTable (handleTableSelection ordersList creditClientsList tbl prev) = Some tbl
           \<and> orderItems (handleTableSelection ordersList creditClientsList tbl prev) =
               map (\<lambda>item. \<lparr>line_product = item_product item, line_quantity = item_quantity item\<rparr>)
                 (order_items existingOrder))"
  proof -
    assume "hasPendingOrder ordersList tbl"
    then obtain eo where eo: "pendingOrderFor ordersList (table_id tbl) = Some eo"
      by (auto simp: hasPendingOrder_iff)
    from pendingOrderFor_Some [OF eo] eo show ?thesis
      by (simp add: handleTableSelection_def)
  qed
  have b: "\<not> hasPendingOrder ordersList tbl \<Longrightarrow>
         handleTableSelection ordersList creditClientsList tbl prev
           = prev\<lparr>selectedTable := Some tbl, step := StepClient\<rparr>"
    by (simp add: hasPendingOrder_iff handleTableSelection_def)
  have c: "\<forall>orderData. handleSubmitOrder ordersList orderStep = CreateOrder orderData \<longrightarrow>
         (\<exists>t. selectedTable orderStep = Some t \<and> \<not> hasPendingOrder ordersList t)"
    using createOrder_only_without_pending by blast
  from a b c show ?thesis unfolding Let_def by blast
qed

text \<open>
  A table selected by the URL parameter is recorded and the flow goes to the client step,
  whatever the orders are: the effect does not read them.
\<close>

lemma autoSelectTable_ignores_orders:
  "find (\<lambda>t. table_id t = tableId') tablesList = Some tbl \<Longrightarrow>
     autoSelectTable (Some tableId') tablesList prev = prev\<lparr>selectedTable := Some tbl, step := StepClient\<rparr>"
  by (auto simp: autoSelectTable_def)

text \<open>
  C2 requires that selecting a table with a pending order leads to the product step with
  the order's items in the cart, and that the client step begins only for a table without
  a pending order. The code at the failing input: table 12 has a pending order; selected
  by the URL parameter \<^verbatim>\<open>table=12\<close> it is recorded with the flow at the client step and
  an empty cart, where its button leads to the product step with the order's line.
\<close>

theorem url_selected_table_starts_client_step:
  "hasPendingOrder [pendingOrder12] table12
   \<and> step (autoSelectTable (Some 12) [table12] emptyStep) = StepClient
   \<and> selectedTable (autoSelectTable (Some 12) [table12] emptyStep) = Some table12
   \<and> orderItems (autoSelectTable (Some 12) [table12] emptyStep) = []
   \<and> step (handleTableSelection [pendingOrder12] [] table12 emptyStep) = StepProducts
   \<and> orderItems (handleTableSelection [pendingOrder12] [] table12 emptyStep)
       = [\<lparr>line_product = beer, line_quantity = 5\<rparr>]"
  by (simp add: fixtures hasPendingOrder_def autoSelectTable_def handleTableSelection_def
        pendingOrderFor_def)

text \<open>
  What follows on that path: the cart starts empty, so one unit of a product that the
  pending order holds at quantity 5, added and submitted, is sent as the new quantity 1.
\<close>

lemma url_selected_table_overwrites_quantity:
  "handleSubmitOrder [wineOrder12]
     (clickAdd wine
        (handleClientSelection Anonymous None None None
           (autoSelectTable (Some 12) [table12] emptyStep)))
   = AddItemsToOrder 40 [\<lparr>productId = 2, quantity = 1, price = ''3.00''\<rparr>]"
  by (simp add: fixtures autoSelectTable_def handleClientSelection_def clickAdd_def
        addButtonDisabled_def stockNumber_def handleProductAdd_def handleSubmitOrder_def
        pendingOrderFor_def mergeItemsToAdd_def toPayload_def)

subsection \<open>Quantities of 0 or less\<close>

text \<open>
  C3 requires that driving a product's quantity to 0 or less removes its line from the
  order. The code at the failing input: the pending order of table 12 holds product 1 at
  5 and product 2 at 2; the table is selected by its button, so the cart holds both lines;
  the quantity of product 2 is driven to 0, which takes its line out of the cart; the cart
  is submitted. Nothing is sent, the toast is the warning that there is nothing new, and
  when product 1 is changed as well only product 1 is sent: no request says that product
  2 is to leave the order.
\<close>

theorem removal_in_cart_does_not_reach_order:
  "orderItems (handleTableSelection [beerWineOrder12] [] table12 emptyStep)
     = [\<lparr>line_product = beer, line_quantity = 5\<rparr>, \<lparr>line_product = wine, line_quantity = 2\<rparr>]
   \<and> orderItems (handleQuantityChange 2 0 (handleTableSelection [beerWineOrder12] [] table12 emptyStep))
     = [\<lparr>line_product = beer, line_quantity = 5\<rparr>]
   \<and> handleSubmitOrder [beerWineOrder12]
        (handleQuantityChange 2 0 (handleTableSelection [beerWineOrder12] [] table12 emptyStep))
     = Toast ''Aviso'' Default
   \<and> handleSubmitOrder [beerWineOrder12]
        (handleQuantityChange 1 6
           (handleQuantityChange 2 0 (handleTableSelection [beerWineOrder12] [] table12 emptyStep)))
     = AddItemsToOrder 40 [\<lparr>productId = 1, quantity = 6, price = ''5.00''\<rparr>]"
  by (simp add: fixtures handleTableSelection_def pendingOrderFor_def handleQuantityChange_def
        handleProductRemove_def handleSubmitOrder_def mergeItemsToAdd_def toPayload_def
        inferClientType_def truthyNumber_def)

subsection \<open>A submission that changes nothing\<close>

text \<open>
  C4: when a complete cart is submitted for a table with a pending order and every cart
  line is for a product on the order at the order's quantity, no request is issued and
  the toast is the warning, not the error; in particular for the cart that table
  selection fills from an order whose items are of pairwise different products.
\<close>

theorem unchanged_cart_warns_without_request:
  "(selectedTable orderStep = Some tbl \<and> clientType orderStep \<noteq> None \<and> orderItems orderStep \<noteq> []
      \<and> pendingOrderFor ordersList (table_id tbl) = Some existingOrder
      \<and> (\<forall>line \<in> set (orderItems orderStep).
            onOrder existingOrder line \<and> \<not> quantityChanged existingOrder line)
      \<longrightarrow> handleSubmitOrder ordersList orderStep = Toast ''Aviso'' Default)
   \<and> (pendingOrderFor ordersList (table_id tbl) = Some existingOrder
      \<and> order_items existingOrder \<noteq> []
      \<and> distinct (map (\<lambda>item. product_id (item_product item)) (order_items existingOrder))
      \<longrightarrow> handleSubmitOrder ordersList (handleTableSelection ordersList creditClientsList tbl prev)
            = Toast ''Aviso'' Default)"
proof (intro conjI impI; elim conjE)
  assume "selectedTable orderStep = Some tbl" "clientType orderStep \<noteq> None"
    "orderItems orderStep \<noteq> []"
    "pendingOrderFor ordersList (table_id tbl) = Some existingOrder"
    "\<forall>line \<in> set (orderItems orderStep).
       onOrder existingOrder line \<and> \<not> quantityChanged existingOrder line"
  then show "handleSubmitOrder ordersList orderStep = Toast ''Aviso'' Default"
    by (rule noop_general)
next
  let ?next = "handleTableSelection ordersList creditClientsList tbl prev"
  assume pend: "pendingOrderFor ordersList (table_id tbl) = Some existingOrder"
    and ne: "order_items existingOrder \<noteq> []"
    and d: "distinct (map (\<lambda>item. product_id (item_product item)) (order_items existingOrder))"
  have cart: "orderItems ?next =
      map (\<lambda>item. \<lparr>line_product = item_product item, line_quantity = item_quantity item\<rparr>)
        (order_items existingOrder)"
    and sel: "selectedTable ?next = Some tbl" and ct: "clientType ?next \<noteq> None"
    using pend by (simp_all add: handleTableSelection_def)
  have same: "\<forall>line \<in> set (orderItems ?next).
                onOrder existingOrder line \<and> \<not> quantityChanged existingOrder line"
    unfolding cart using prepopulated_cart_unchanged [OF d] by blast
  from ne have "orderItems ?next \<noteq> []" by (simp add: cart)
  with sel ct show "handleSubmitOrder ordersList ?next = Toast ''Aviso'' Default"
    using pend same by (rule noop_general)
qed

theorem unchanged_cart_warns_without_request_witness:
  "pendingOrderFor [pendingOrder12] (table_id table12) = Some pendingOrder12
   \<and> handleSubmitOrder [pendingOrder12]
        (handleTableSelection [pendingOrder12] [] table12 emptyStep)
       = Toast ''Aviso'' Default
   \<and> handleSubmitOrder [pendingOrder12]
        (cartStep [\<lparr>line_product = beer, line_quantity = 5\<rparr>])
       = Toast ''Aviso'' Default"
  using unchanged_cart_warns_without_request
    [of "cartStep [\<lparr>line_product = beer, line_quantity = 5\<rparr>]" table12 "[pendingOrder12]"
        pendingOrder12 "[]" emptyStep]
  by (simp add: fixtures pendingOrderFor_def onOrder_def quantityChanged_def)

subsection \<open>The total\<close>




subsection \<open>The states of a table\<close>

text \<open>
  C6, as the code has it: a table is shown free exactly when its status field is free;
  a table with a pending order can always be selected, is marked as accepting items, and
  its selection leads to the product step; a table that is not free and has no pending
  order (its orders being preparing or ready, say) is locked: its button is disabled and
  pressing it changes nothing; and a merge request is only ever issued against a pending
  order of the selected table.
\<close>

theorem table_button_states:
  "(button_colour (tableButton ordersList tbl) = Green \<longleftrightarrow> table_status tbl = Free)
   \<and> (hasPendingOrder ordersList tbl \<longrightarrow>
         \<not> button_disabled (tableButton ordersList tbl)
         \<and> button_plus (tableButton ordersList tbl)
         \<and> (table_status tbl \<noteq> Free \<longrightarrow> button_colour (tableButton ordersList tbl) = Orange)
         \<and> step (clickTable ordersList creditClientsList tbl prev) = StepProducts)
   \<and> (table_status tbl \<noteq> Free \<and> \<not> hasPendingOrder ordersList tbl \<longrightarrow>
         button_disabled (tableButton ordersList tbl)
         \<and> button_colour (tableButton ordersList tbl) = Red
         \<and> clickTable ordersList creditClientsList tbl prev = prev)
   \<and> (\<forall>orderId sent. handleSubmitOrder ordersList orderStep = AddItemsToOrder orderId sent \<longrightarrow>
         (\<exists>existingOrder \<in> set ordersList. \<exists>t.
            order_id existingOrder = orderId \<and> order_status existingOrder = Pending
            \<and> selectedTable orderStep = Some t \<and> order_tableId existingOrder = table_id t))"
proof -
  have a: "button_colour (tableButton ordersList tbl) = Green \<longleftrightarrow> table_status tbl = Free"
    by (simp add: tableButton_def)
  have b: "hasPendingOrder ordersList tbl \<longrightarrow>
         \<not> button_disabled (tableButton ordersList tbl)
         \<and> button_plus (tableButton ordersList tbl)
         \<and> (table_status tbl \<noteq> Free \<longrightarrow> button_colour (tableButton ordersList tbl) = Orange)
         \<and> step (clickTable ordersList creditClientsList tbl prev) = StepProducts"
    by (auto simp: tableButton_def clickTable_def handleTableSelection_def hasPendingOrder_iff)
  have c: "table_status tbl \<noteq> Free \<and> \<not> hasPendingOrder ordersList tbl \<longrightarrow>
         button_disabled (tableButton ordersList tbl)
         \<and> button_colour (tableButton ordersList tbl) = Red
         \<and> clickTable ordersList creditClientsList tbl prev = prev"
    by (simp add: tableButton_def clickTable_def)
  have d: "\<forall>orderId sent. handleSubmitOrder ordersList orderStep = AddItemsToOrder orderId sent \<longrightarrow>
         (\<exists>existingOrder \<in> set ordersList. \<exists>t.
            order_id existingOrder = orderId \<and> order_status existingOrder = Pending
            \<and> selectedTable orderStep = Some t \<and> order_tableId existingOrder = table_id t)"
    using merge_request_targets_pending_order by blast
  from a b c d show ?thesis by (intro conjI)
qed

theorem table_button_states_witness:
  "hasPendingOrder [pendingOrder12] table12
   \<and> tableButton [pendingOrder12] table12
       = \<lparr>button_colour = Orange, button_disabled = False, button_plus = True\<rparr>
   \<and> step (clickTable [pendingOrder12] [] table12 emptyStep) = StepProducts
   \<and> handleSubmitOrder [pendingOrder12]
        (cartStep [\<lparr>line_product = beer, line_quantity = 3\<rparr>])
       = AddItemsToOrder 40 [\<lparr>productId = 1, quantity = 3, price = ''5.00''\<rparr>]
   \<and> order_status pendingOrder12 = Pending
   \<and> \<not> hasPendingOrder [preparingOrder12] table12
   \<and> clickTable [preparingOrder12] [] table12 emptyStep = emptyStep"
  using table_button_states [of "[pendingOrder12]" table12 "[]" emptyStep
      "cartStep [\<lparr>line_product = beer, line_quantity = 3\<rparr>]"]
    table_button_states [of "[preparingOrder12]" table12 "[]" emptyStep "cartStep []"]
  by (simp add: fixtures hasPendingOrder_def tableButton_def handleSubmitOrder_def
        pendingOrderFor_def mergeItemsToAdd_def toPayload_def)

text \<open>
  C6 as stated fails: table 12 is occupied by an order in preparation, so no order that
  references it is pending, and yet it is not shown free: its button is red and disabled.
\<close>

theorem occupied_without_pending_is_not_free_counterexample:
  "\<not> hasPendingOrder [preparingOrder12] table12
   \<and> button_colour (tableButton [preparingOrder12] table12) = Red
   \<and> button_disabled (tableButton [preparingOrder12] table12)"
  by (simp add: fixtures hasPendingOrder_def tableButton_def)

subsection \<open>Validation before any request\<close>

text \<open>
  C7: in every state with no table selected, no client type chosen or an empty cart,
  submitting issues neither a create nor a merge request and reports the error toast.
\<close>

theorem submit_rejects_incomplete_state:
  assumes "selectedTable orderStep = None \<or> clientType orderStep = None \<or> orderItems orderStep = []"
  shows "handleSubmitOrder ordersList orderStep = Toast ''Erro'' Destructive"
  using assms by (auto simp: handleSubmitOrder_def split: option.splits)

theorem submit_rejects_incomplete_state_witness:
  "orderItems (cartStep []) = []
   \<and> handleSubmitOrder [pendingOrder12] (cartStep []) = Toast ''Erro'' Destructive"
  using submit_rejects_incomplete_state [of "cartStep []" "[pendingOrder12]"]
  by (simp add: cartStep_def emptyStep_def)

subsection \<open>Stock and the add button\<close>

text \<open>
  C8, as the code has it: the add button of a product is disabled exactly when its stock
  is 0 or less; pressing it for such a product changes nothing; a line that the add
  action brings into the cart is for a product in stock, at quantity 1; and a cart whose
  lines are all in stock stays so under the add action, a quantity change and a removal.
\<close>

theorem add_button_refuses_out_of_stock:
  "(addButtonDisabled product \<longleftrightarrow> stockNumber product \<le> 0)
   \<and> (stockNumber product \<le> 0 \<longrightarrow> clickAdd product prev = prev)
   \<and> (\<forall>line \<in> set (orderItems (clickAdd product prev)).
         line_product line \<in> line_product ` set (orderItems prev)
         \<or> (line_product line = product \<and> line_quantity line = 1 \<and> 0 < stockNumber product))
   \<and> (allInStock prev \<longrightarrow>
         allInStock (clickAdd product prev)
         \<and> allInStock (handleQuantityChange pid qty prev)
         \<and> allInStock (handleProductRemove pid prev))"
proof -
  have a: "addButtonDisabled product \<longleftrightarrow> stockNumber product \<le> 0"
    by (simp add: addButtonDisabled_def)
  have b: "stockNumber product \<le> 0 \<longrightarrow> clickAdd product prev = prev"
    by (simp add: clickAdd_def addButtonDisabled_def)
  have c: "\<forall>line \<in> set (orderItems (clickAdd product prev)).
         line_product line \<in> line_product ` set (orderItems prev)
         \<or> (line_product line = product \<and> line_quantity line = 1 \<and> 0 < stockNumber product)"
    by (auto simp: clickAdd_def addButtonDisabled_def handleProductAdd_def
          split: option.splits if_splits)
  have d: "allInStock prev \<longrightarrow>
         allInStock (clickAdd product prev)
         \<and> allInStock (handleQuantityChange pid qty prev)
         \<and> allInStock (handleProductRemove pid prev)"
    by (auto simp: allInStock_def list_all_iff clickAdd_def addButtonDisabled_def
          handleProductAdd_def handleQuantityChange_def handleProductRemove_def
          split: option.splits if_splits)
  from a b c d show ?thesis by (intro conjI)
qed

theorem add_button_refuses_out_of_stock_witness:
  "stockNumber beer \<le> 0
   \<and> clickAdd beer (cartStep []) = cartStep []
   \<and> allInStock (cartStep [])
   \<and> orderItems (clickAdd wine (cartStep [])) = [\<lparr>line_product = wine, line_quantity = 1\<rparr>]
   \<and> allInStock (clickAdd wine (cartStep []))"
  using add_button_refuses_out_of_stock [of beer "cartStep []" 1 0]
    add_button_refuses_out_of_stock [of wine "cartStep []" 1 0]
  by (simp add: fixtures stockNumber_def allInStock_def clickAdd_def addButtonDisabled_def
        handleProductAdd_def)

text \<open>
  C8 as stated fails: product 1 has no stock left and is on the pending order of table
  12; selecting the table creates a cart line for it.
\<close>

theorem prepopulated_cart_holds_out_of_stock_counterexample:
  "stockNumber beer \<le> 0
   \<and> orderItems (clickTable [pendingOrder12] [] table12 emptyStep)
       = [\<lparr>line_product = beer, line_quantity = 5\<rparr>]"
  by (simp add: fixtures stockNumber_def clickTable_def tableButton_def hasPendingOrder_def
        handleTableSelection_def pendingOrderFor_def)

subsection \<open>The billing mode of an existing order\<close>

text \<open>
  C9: for the pending order of the selected table (client ids are never 0), the client
  type is credit when \<^verbatim>\<open>creditClientId\<close> is set; otherwise it is manager exactly when
  the order has a \<^verbatim>\<open>clientName\<close> that, lowercased, is \<^verbatim>\<open>carl malack\<close> or
  \<^verbatim>\<open>lucelle reis\<close>; every other name, and no name, gives anonymous.
\<close>

theorem client_type_inferred_by_fixed_names:
  assumes pend: "pendingOrderFor ordersList (table_id tbl) = Some existingOrder"
    and ids: "order_creditClientId existingOrder \<noteq> Some 0"
  shows "clientType (handleTableSelection ordersList creditClientsList tbl prev) =
           Some (if order_creditClientId existingOrder \<noteq> None then Credit
                 else if (\<exists>name. order_clientName existingOrder = Some name
                            \<and> (toLowerCase name = ''carl malack''
                                 \<or> toLowerCase name = ''lucelle reis''))
                      then Manager
                 else Anonymous)"
proof -
  have t: "truthyNumber (order_creditClientId existingOrder)
             \<longleftrightarrow> order_creditClientId existingOrder \<noteq> None"
    using ids by (auto simp: truthyNumber_def split: option.splits)
  have m: "isManagerName (order_clientName existingOrder) \<longleftrightarrow>
             (\<exists>name. order_clientName existingOrder = Some name
                \<and> (toLowerCase name = ''carl malack'' \<or> toLowerCase name = ''lucelle reis''))"
    by (auto simp: isManagerName_def toLowerCase_def split: option.splits)
  show ?thesis using pend
    by (simp add: handleTableSelection_def inferClientType_def t m)
qed

theorem client_type_inferred_by_fixed_names_witness:
  "pendingOrderFor [pendingOrder12] (table_id table12) = Some pendingOrder12
   \<and> order_creditClientId pendingOrder12 \<noteq> Some 0
   \<and> toLowerCase ''Carl Malack'' = ''carl malack''
   \<and> clientType (handleTableSelection [pendingOrder12] [] table12 emptyStep) = Some Manager"
  using client_type_inferred_by_fixed_names
    [of "[pendingOrder12]" table12 pendingOrder12 "[]" emptyStep]
  by (simp add: fixtures pendingOrderFor_def toLowerCase_def lowerChar_def)

subsection \<open>The occupancy figure\<close>

text \<open>
  C10: the denominator of the occupancy figure is never 0, and it is 1 when
  \<^verbatim>\<open>totalTables\<close> is 0 or absent; when \<^verbatim>\<open>occupiedTables\<close> is 0 or absent the numerator
  is 0 and the figure is 0.
\<close>

theorem occupancy_denominator_never_zero:
  "occupancyDenominator sessionStats \<noteq> 0
   \<and> (optField totalTables sessionStats = None \<or> optField totalTables sessionStats = Some 0
        \<longrightarrow> occupancyDenominator sessionStats = 1)
   \<and> (optField occupiedTables sessionStats = None \<or> optField occupiedTables sessionStats = Some 0
        \<longrightarrow> occupancyNumerator sessionStats = 0 \<and> occupancyPercent sessionStats = 0)"
proof -
  have a: "occupancyDenominator sessionStats \<noteq> 0"
    by (simp add: occupancyDenominator_def orElse_nonzero)
  have b: "optField totalTables sessionStats = None \<or> optField totalTables sessionStats = Some 0
        \<longrightarrow> occupancyDenominator sessionStats = 1"
    by (auto simp: occupancyDenominator_def orElse_def)
  have c: "optField occupiedTables sessionStats = None
             \<or> optField occupiedTables sessionStats = Some 0
        \<longrightarrow> occupancyNumerator sessionStats = 0 \<and> occupancyPercent sessionStats = 0"
    by (auto simp: occupancyPercent_def occupancyNumerator_def orElse_def Math_round_zero)
  from a b c show ?thesis by (intro conjI)
qed

theorem occupancy_denominator_never_zero_witness:
  "occupancyDenominator (Some \<lparr>occupiedTables = Some 0, totalTables = Some 0\<rparr>) = 1
   \<and> occupancyPercent (Some \<lparr>occupiedTables = Some 0, totalTables = Some 0\<rparr>) = 0
   \<and> occupancyDenominator None = 1
   \<and> occupancyPercent None = 0"
  using occupancy_denominator_never_zero [of "Some \<lparr>occupiedTables = Some 0, totalTables = Some 0\<rparr>"]
    occupancy_denominator_never_zero [of None]
  by (simp add: optField_def)

end
